theory Spec2Isabelle
  imports Complex_Main
begin

section \<open>Data model of \<^verbatim>\<open>app.py\<close>\<close>

text \<open>
  The module keeps two dictionaries: \<^verbatim>\<open>task_statuses\<close> (task id to status dict) and
  the \<^verbatim>\<open>active_connections\<close> of the single \<^verbatim>\<open>ConnectionManager\<close> (task id to the
  list of WebSocket objects). A status dict has a fixed set of keys, so it is a record;
  \<^verbatim>\<open>completion_time\<close> is the one key that is absent until completion, hence an option.
  \<^verbatim>\<open>progress\<close> is the float \<^verbatim>\<open>(stage / 4) * 100\<close> or the integer 100; the values
  0, 25, 50, 75 and 100 are exact in binary floating point, so a rational carries them.
\<close>

record baggage_details =
  baggage_id :: string
  flight_number :: string
  destination :: string
  weight :: string
  priority :: string

record task_status =
  task_id :: string
  stage :: nat
  stage_name :: string
  progress :: rat
  status :: string
  start_time :: string
  estimated_completion :: rat
  baggage :: baggage_details
  completion_time :: "string option"

text \<open>
  A WebSocket object is compared by identity (\<^verbatim>\<open>list.remove\<close> finds it by \<^verbatim>\<open>==\<close>,
  which Starlette leaves as object identity), so a connection is its identity, a number.
\<close>

type_synonym websocket = nat

text \<open>
  What the operations read and write. \<^verbatim>\<open>broken\<close> is the set of connections whose
  \<^verbatim>\<open>send_text\<close> raises; \<^verbatim>\<open>outbox\<close> lists every \<^verbatim>\<open>send_text\<close> that returned, in order,
  with the status dict that \<^verbatim>\<open>json.dumps\<close> serialised. Wall-clock time is not part
  of the world: a sleep is a point where the coroutine is suspended.
\<close>

record world =
  task_statuses :: "string \<rightharpoonup> task_status"
  active_connections :: "string \<rightharpoonup> websocket list"
  broken :: "websocket set"
  outbox :: "(websocket \<times> task_status) list"

datatype error = KeyError | ValueError | SendError | HTTP404

definition PROCESSING_STAGES :: "string list" where
  "PROCESSING_STAGES =
     [''Baggage Check-in'', ''Security Screening'', ''Baggage Sorting'',
      ''Loading onto Aircraft'', ''Processing Complete'']"

section \<open>ConnectionManager\<close>

text \<open>
  \<^verbatim>\<open>send_personal_message\<close>: one \<^verbatim>\<open>send_text\<close>; the exception of a broken connection
  propagates to the caller.
\<close>

definition send_personal_message ::
    "task_status \<Rightarrow> websocket \<Rightarrow> world \<Rightarrow> error option \<times> world" where
  "send_personal_message message ws w =
     (if ws \<in> broken w then (Some SendError, w)
      else (None, w\<lparr>outbox := outbox w @ [(ws, message)]\<rparr>))"

text \<open>
  \<^verbatim>\<open>connect\<close> (lines 30-38). \<^verbatim>\<open>websocket.accept()\<close> is the transport's handshake and
  is taken to succeed. The connection is appended before the snapshot is sent, so a
  failing send leaves it registered.
\<close>

definition connect :: "websocket \<Rightarrow> string \<Rightarrow> world \<Rightarrow> error option \<times> world" where
  "connect ws tid w =
     (let conns = (case active_connections w tid of None \<Rightarrow> [] | Some cs \<Rightarrow> cs);
          w1 = w\<lparr>active_connections := (active_connections w)(tid \<mapsto> conns @ [ws])\<rparr>
      in case task_statuses w1 tid of
           None \<Rightarrow> (None, w1)
         | Some r \<Rightarrow> send_personal_message r ws w1)"

text \<open>
  \<^verbatim>\<open>disconnect\<close> (lines 40-44). \<^verbatim>\<open>list.remove\<close> raises \<^verbatim>\<open>ValueError\<close> when the element
  is not in the list; nothing has been written at that point.
\<close>

definition disconnect :: "websocket \<Rightarrow> string \<Rightarrow> world \<Rightarrow> error option \<times> world" where
  "disconnect ws tid w =
     (case active_connections w tid of
        None \<Rightarrow> (None, w)
      | Some conns \<Rightarrow>
          if ws \<notin> set conns then (Some ValueError, w)
          else if remove1 ws conns = []
            then (None, w\<lparr>active_connections := (active_connections w)(tid := None)\<rparr>)
            else (None, w\<lparr>active_connections := (active_connections w)(tid \<mapsto> remove1 ws conns)\<rparr>))"

text \<open>
  The loop of \<^verbatim>\<open>broadcast_to_task\<close> (lines 52-57). Python's list iterator keeps an
  index into the list object and stops when the index reaches the current length; the
  \<^verbatim>\<open>except\<close> branch removes the first occurrence of the connection from that same list
  while the iteration goes on. \<open>i\<close> is the iterator's index, \<open>conns\<close> the list object as
  it is now, \<open>delivered\<close> the connections whose \<^verbatim>\<open>send_text\<close> returned so far.
\<close>

function broadcast_iter ::
    "websocket set \<Rightarrow> nat \<Rightarrow> websocket list \<Rightarrow> websocket list \<Rightarrow> websocket list \<times> websocket list" where
  "broadcast_iter bad i conns delivered =
     (if i < length conns then
        (if conns ! i \<in> bad
         then broadcast_iter bad (Suc i) (remove1 (conns ! i) conns) delivered
         else broadcast_iter bad (Suc i) conns (delivered @ [conns ! i]))
      else (conns, delivered))"
  by pat_completeness auto
termination
  by (relation "measure (\<lambda>(bad, i, conns, delivered). length conns - i)")
     (auto simp: length_remove1)

declare broadcast_iter.simps [simp del]

text \<open>\<^verbatim>\<open>broadcast_to_task\<close> (lines 49-57): no entry for the task id, nothing happens.\<close>

definition broadcast_to_task :: "task_status \<Rightarrow> string \<Rightarrow> world \<Rightarrow> world" where
  "broadcast_to_task message tid w =
     (case active_connections w tid of
        None \<Rightarrow> w
      | Some conns \<Rightarrow>
          (case broadcast_iter (broken w) 0 conns [] of
             (conns', delivered) \<Rightarrow>
               w\<lparr>active_connections := (active_connections w)(tid \<mapsto> conns'),
                 outbox := outbox w @ map (\<lambda>c. (c, message)) delivered\<rparr>))"

text \<open>\<^verbatim>\<open>get_status\<close> (lines 152-158): HTTP 404 for an id that is not in the registry.\<close>

definition get_status :: "string \<Rightarrow> world \<Rightarrow> error + task_status" where
  "get_status tid w =
     (case task_statuses w tid of None \<Rightarrow> Inl HTTP404 | Some r \<Rightarrow> Inr r)"

section \<open>The stage runner\<close>

text \<open>
  What \<^verbatim>\<open>simulate_baggage_processing\<close> reads from outside: the two clock readings of
  the initial dict, the random baggage details, the four random stage times and the
  clock reading at completion.
\<close>

record runner_env =
  start_iso :: string
  start_ts :: rat
  rand_baggage :: baggage_details
  rand_time_1 :: nat
  rand_time_2 :: nat
  rand_time_3 :: nat
  rand_time_4 :: nat
  completion_iso :: string

definition stage_times :: "runner_env \<Rightarrow> nat list" where
  "stage_times env = [rand_time_1 env, rand_time_2 env, rand_time_3 env, rand_time_4 env]"

text \<open>The dict literal of lines 64-79.\<close>

definition initial_status :: "string \<Rightarrow> runner_env \<Rightarrow> task_status" where
  "initial_status tid env =
     \<lparr>task_id = tid, stage = 0, stage_name = PROCESSING_STAGES ! 0, progress = 0,
      status = ''Processing'', start_time = start_iso env,
      estimated_completion = start_ts env + 120, baggage = rand_baggage env,
      completion_time = None\<rparr>"

text \<open>
  The statements of the runner, one constructor per kind of source line:
  the initial store, an item assignment \<^verbatim>\<open>task_statuses[task_id][key] = value\<close>
  (the update of the dict as a function), the broadcast of the current dict,
  \<^verbatim>\<open>asyncio.sleep\<close>, and the guarded \<^verbatim>\<open>del\<close> of lines 117-118.
\<close>

datatype stmt =
    Initialize
  | Assign "task_status \<Rightarrow> task_status"
  | Broadcast
  | Sleep nat
  | Delete

text \<open>
  One statement on the world. \<^verbatim>\<open>task_statuses[task_id]\<close> raises \<^verbatim>\<open>KeyError\<close> on an
  absent id, in an assignment as in the argument of the broadcast.
\<close>

fun exec :: "string \<Rightarrow> runner_env \<Rightarrow> stmt \<Rightarrow> world \<Rightarrow> error option \<times> world" where
  "exec tid env Initialize w =
     (None, w\<lparr>task_statuses := (task_statuses w)(tid \<mapsto> initial_status tid env)\<rparr>)"
| "exec tid env (Assign f) w =
     (case task_statuses w tid of
        None \<Rightarrow> (Some KeyError, w)
      | Some r \<Rightarrow> (None, w\<lparr>task_statuses := (task_statuses w)(tid \<mapsto> f r)\<rparr>))"
| "exec tid env Broadcast w =
     (case task_statuses w tid of
        None \<Rightarrow> (Some KeyError, w)
      | Some r \<Rightarrow> (None, broadcast_to_task r tid w))"
| "exec tid env (Sleep n) w = (None, w)"
| "exec tid env Delete w =
     (if tid \<in> dom (task_statuses w)
      then (None, w\<lparr>task_statuses := (task_statuses w)(tid := None)\<rparr>)
      else (None, w))"

text \<open>The body of the \<^verbatim>\<open>for stage in range(4)\<close> loop (lines 94-103).\<close>

definition stage_body :: "runner_env \<Rightarrow> nat \<Rightarrow> stmt list" where
  "stage_body env k =
     [Assign (\<lambda>r. r\<lparr>stage := k\<rparr>),
      Assign (\<lambda>r. r\<lparr>stage_name := PROCESSING_STAGES ! k\<rparr>),
      Assign (\<lambda>r. r\<lparr>progress := (of_nat k / 4) * 100\<rparr>),
      Broadcast,
      Sleep (stage_times env ! k)]"

text \<open>The final stage (lines 106-113).\<close>

definition completion :: "runner_env \<Rightarrow> stmt list" where
  "completion env =
     [Assign (\<lambda>r. r\<lparr>stage := 4\<rparr>),
      Assign (\<lambda>r. r\<lparr>stage_name := PROCESSING_STAGES ! 4\<rparr>),
      Assign (\<lambda>r. r\<lparr>progress := 100\<rparr>),
      Assign (\<lambda>r. r\<lparr>status := ''Completed''\<rparr>),
      Assign (\<lambda>r. r\<lparr>completion_time := Some (completion_iso env)\<rparr>),
      Broadcast]"

text \<open>
  \<^verbatim>\<open>simulate_baggage_processing\<close> (lines 61-118), statement by statement: the part up
  to the final broadcast, then the retention sleep and the guarded \<^verbatim>\<open>del\<close>.
\<close>

definition processing :: "runner_env \<Rightarrow> stmt list" where
  "processing env =
     [Initialize, Broadcast] @ concat (map (stage_body env) [0..<4]) @ completion env"

definition retention :: "stmt list" where
  "retention = [Sleep 300, Delete]"

definition simulate_baggage_processing :: "runner_env \<Rightarrow> stmt list" where
  "simulate_baggage_processing env = processing env @ retention"

text \<open>Running statements in order; a raise ends the coroutine where it stands.\<close>

fun run :: "string \<Rightarrow> runner_env \<Rightarrow> stmt list \<Rightarrow> world \<Rightarrow> error option \<times> world" where
  "run tid env [] w = (None, w)"
| "run tid env (s # ss) w =
     (case exec tid env s w of
        (Some e, w') \<Rightarrow> (Some e, w')
      | (None, w') \<Rightarrow> run tid env ss w')"

text \<open>The worlds reached after each statement that returned, in order.\<close>

fun run_trace :: "string \<Rightarrow> runner_env \<Rightarrow> stmt list \<Rightarrow> world \<Rightarrow> world list" where
  "run_trace tid env [] w = []"
| "run_trace tid env (s # ss) w =
     (case exec tid env s w of
        (Some e, w') \<Rightarrow> []
      | (None, w') \<Rightarrow> w' # run_trace tid env ss w')"

text \<open>The messages the runner hands to \<^verbatim>\<open>broadcast_to_task\<close>, in order.\<close>

fun broadcasts :: "string \<Rightarrow> runner_env \<Rightarrow> stmt list \<Rightarrow> world \<Rightarrow> task_status list" where
  "broadcasts tid env [] w = []"
| "broadcasts tid env (s # ss) w =
     (case exec tid env s w of
        (Some e, w') \<Rightarrow> []
      | (None, w') \<Rightarrow>
          (case (s, task_statuses w tid) of
             (Broadcast, Some r) \<Rightarrow> [r]
           | _ \<Rightarrow> []) @ broadcasts tid env ss w')"

text \<open>
  The status dicts the registry holds for the id after each statement of the runner:
  the life of the record, from the initial store to the last state before the \<^verbatim>\<open>del\<close>.
\<close>

definition lifetime :: "string \<Rightarrow> runner_env \<Rightarrow> world \<Rightarrow> task_status list" where
  "lifetime tid env w =
     List.map_filter (\<lambda>w'. task_statuses w' tid)
       (run_trace tid env (simulate_baggage_processing env) w)"



section \<open>Other coroutines\<close>

text \<open>
  What can happen to the world while the runner of \<open>tid\<close> is suspended: a WebSocket
  handler attaches or detaches a connection, the runner of another id (ids are
  \<^verbatim>\<open>uuid4\<close> draws) executes a statement, connections break or recover.
\<close>

inductive other_step :: "string \<Rightarrow> world \<Rightarrow> world \<Rightarrow> bool" for tid :: string where
  attach: "other_step tid w (snd (connect ws t w))"
| detach: "other_step tid w (snd (disconnect ws t w))"
| runner: "t \<noteq> tid \<Longrightarrow> other_step tid w (snd (exec t env s w))"
| network: "other_step tid w (w\<lparr>broken := B\<rparr>)"

section \<open>The hub's invariant\<close>

text \<open>No task id of the hub's map is associated with an empty list.\<close>

definition hub_inv :: "world \<Rightarrow> bool" where
  "hub_inv w = ([] \<notin> ran (active_connections w))"

section \<open>Concrete inputs\<close>

definition example_env :: runner_env where
  "example_env =
     \<lparr>start_iso = ''2024-01-01T00:00:00'', start_ts = 1704067200,
      rand_baggage = \<lparr>baggage_id = ''BAG-12345'', flight_number = ''FL-123'',
        destination = ''Tokyo'', weight = ''12.5 kg'', priority = ''Normal''\<rparr>,
      rand_time_1 = 20, rand_time_2 = 25, rand_time_3 = 30, rand_time_4 = 35,
      completion_iso = ''2024-01-01T00:01:50''\<rparr>"

text \<open>Nothing registered, nobody attached.\<close>

definition empty_world :: world where
  "empty_world =
     \<lparr>task_statuses = Map.empty, active_connections = Map.empty, broken = {}, outbox = []\<rparr>"

text \<open>Two subscribers of task \<open>T1\<close>; the first one's connection is broken.\<close>

definition two_subscribers :: world where
  "two_subscribers =
     \<lparr>task_statuses = Map.empty, active_connections = [''T1'' \<mapsto> [1, 2]],
      broken = {1}, outbox = []\<rparr>"

text \<open>One subscriber of task \<open>T1\<close>, with a broken connection.\<close>

definition one_broken_subscriber :: world where
  "one_broken_subscriber =
     \<lparr>task_statuses = Map.empty, active_connections = [''T1'' \<mapsto> [1]],
      broken = {1}, outbox = []\<rparr>"

section \<open>The registry is written by the runner of the id only\<close>

lemma task_statuses_broadcast [simp]:
  "task_statuses (broadcast_to_task m tid w) = task_statuses w"
  by (simp add: broadcast_to_task_def split: option.splits prod.splits)

lemma task_statuses_connect [simp]:
  "task_statuses (snd (connect ws t w)) = task_statuses w"
  by (simp add: connect_def send_personal_message_def Let_def split: option.splits)

lemma task_statuses_disconnect [simp]:
  "task_statuses (snd (disconnect ws t w)) = task_statuses w"
  by (simp add: disconnect_def split: option.splits)

lemma exec_other_id:
  "t \<noteq> tid \<Longrightarrow> task_statuses (snd (exec t env s w)) tid = task_statuses w tid"
  by (cases s) (simp_all split: option.splits)

lemma other_step_registry:
  "other_step tid w w' \<Longrightarrow> task_statuses w' tid = task_statuses w tid"
  by (induction rule: other_step.induct) (simp_all add: exec_other_id)

lemma other_steps_registry:
  "(other_step tid)\<^sup>*\<^sup>* w w' \<Longrightarrow> task_statuses w' tid = task_statuses w tid"
  by (induction rule: rtranclp_induct) (simp_all add: other_step_registry)

section \<open>Running the blocks of the runner\<close>

lemma upt_0_4: "[0..<4] = [0, 1, 2, 3]"
  by (simp add: upt_rec)

lemmas runner_defs =
  simulate_baggage_processing_def processing_def retention_def stage_body_def
  completion_def stage_times_def upt_0_4

lemma run_stage_body:
  "task_statuses w tid = Some r \<Longrightarrow>
   \<exists>w'. run tid env (stage_body env k) w = (None, w') \<and>
        task_statuses w' = (task_statuses w)(tid \<mapsto>
          r\<lparr>stage := k, stage_name := PROCESSING_STAGES ! k, progress := (of_nat k / 4) * 100\<rparr>)"
  by (simp add: stage_body_def)

lemma run_completion:
  "task_statuses w tid = Some r \<Longrightarrow>
   \<exists>w'. run tid env (completion env) w = (None, w') \<and>
        task_statuses w' = (task_statuses w)(tid \<mapsto>
          r\<lparr>stage := 4, stage_name := PROCESSING_STAGES ! 4, progress := 100,
            status := ''Completed'', completion_time := Some (completion_iso env)\<rparr>)"
  by (simp add: completion_def)

lemma run_processing:
  "\<exists>w'. run tid env (processing env) w = (None, w') \<and>
        task_statuses w' = (task_statuses w)(tid \<mapsto>
          (initial_status tid env)\<lparr>stage := 4, stage_name := ''Processing Complete'',
            progress := 100, status := ''Completed'',
            completion_time := Some (completion_iso env)\<rparr>)"
  by (simp add: runner_defs PROCESSING_STAGES_def initial_status_def)

lemma run_retention:
  "\<exists>w'. run tid env retention w = (None, w') \<and>
        task_statuses w' = (task_statuses w)(tid := None)"
  by (auto simp add: retention_def)

section \<open>The life of a record\<close>

text \<open>Stage, progress and status after each of the 29 statements before the \<^verbatim>\<open>del\<close>.\<close>

lemma lifetime_projection:
  "map (\<lambda>r. (stage r, progress r, status r)) (lifetime tid env w) =
    [(0, 0, ''Processing''), (0, 0, ''Processing''), (0, 0, ''Processing''),
     (0, 0, ''Processing''), (0, 0, ''Processing''), (0, 0, ''Processing''),
     (0, 0, ''Processing''), (1, 0, ''Processing''),
     (1, 0, ''Processing''), (1, 25, ''Processing''),
     (1, 25, ''Processing''), (1, 25, ''Processing''),
     (2, 25, ''Processing''), (2, 25, ''Processing''),
     (2, 50, ''Processing''), (2, 50, ''Processing''),
     (2, 50, ''Processing''), (3, 50, ''Processing''),
     (3, 50, ''Processing''), (3, 75, ''Processing''),
     (3, 75, ''Processing''), (3, 75, ''Processing''),
     (4, 75, ''Processing''), (4, 75, ''Processing''),
     (4, 100, ''Processing''), (4, 100, ''Completed''),
     (4, 100, ''Completed''), (4, 100, ''Completed''),
     (4, 100, ''Completed'')]"
  by (simp add: lifetime_def runner_defs List.map_filter_simps initial_status_def)

lemma lifetime_status:
  "map status (lifetime tid env w) = replicate 25 ''Processing'' @ replicate 4 ''Completed''"
proof -
  have "map status (lifetime tid env w) =
      map (\<lambda>t. snd (snd t)) (map (\<lambda>r. (stage r, progress r, status r)) (lifetime tid env w))"
    by simp
  also have "\<dots> = replicate 25 ''Processing'' @ replicate 4 ''Completed''"
    unfolding lifetime_projection by (simp add: numeral_eq_Suc)
  finally show ?thesis .
qed

lemma length_lifetime: "length (lifetime tid env w) = 29"
  using arg_cong [OF lifetime_status [of tid env w], of length] by simp

lemma lifetime_example_25:
  "status (lifetime ''T1'' example_env two_subscribers ! 25) = ''Completed''"
proof -
  have "status (lifetime ''T1'' example_env two_subscribers ! 25)
      = map status (lifetime ''T1'' example_env two_subscribers) ! 25"
    by (simp add: length_lifetime)
  then show ?thesis
    by (simp add: lifetime_status nth_append)
qed

text \<open>
  Claim C1. Over the life of a task record, from the initial store to the last state
  before the \<^verbatim>\<open>del\<close>, and across every single item assignment of the runner, the
  stage index and the progress never decrease, and a record that is Completed stays
  Completed: the statuses are a run of Processing followed by a run of Completed, so
  Processing turns into Completed at most once and never comes back. The runner
  executes all 30 statements; the record exists after each of the first 29.
\<close>

theorem stage_progress_status_monotone:
  "sorted_wrt (\<lambda>r r'. stage r \<le> stage r' \<and> progress r \<le> progress r' \<and>
                  (status r = ''Completed'' \<longrightarrow> status r' = ''Completed''))
     (lifetime tid env w) \<and>
   (\<exists>m n. map status (lifetime tid env w) =
      replicate m ''Processing'' @ replicate n ''Completed'') \<and>
   length (lifetime tid env w) = 29"
proof -
  let ?R = "\<lambda>(a::nat, b::rat, c::string) (a', b', c').
              a \<le> a' \<and> b \<le> b' \<and> (c = ''Completed'' \<longrightarrow> c' = ''Completed'')"
  have "sorted_wrt ?R (map (\<lambda>r. (stage r, progress r, status r)) (lifetime tid env w))"
    unfolding lifetime_projection by simp
  then have "sorted_wrt (\<lambda>r r'. stage r \<le> stage r' \<and> progress r \<le> progress r' \<and>
                  (status r = ''Completed'' \<longrightarrow> status r' = ''Completed''))
               (lifetime tid env w)"
    by (simp add: sorted_wrt_map)
  moreover have "\<exists>m n. map status (lifetime tid env w) =
      replicate m ''Processing'' @ replicate n ''Completed''"
    using lifetime_status by blast
  ultimately show ?thesis
    by (simp add: length_lifetime)
qed

theorem stage_progress_status_monotone_witness:
  "status (lifetime ''T1'' example_env two_subscribers ! 25) = ''Completed'' \<and>
   status (lifetime ''T1'' example_env two_subscribers ! 28) = ''Completed'' \<and>
   stage (lifetime ''T1'' example_env two_subscribers ! 25)
     \<le> stage (lifetime ''T1'' example_env two_subscribers ! 28)"
proof -
  have "sorted_wrt (\<lambda>r r'. stage r \<le> stage r' \<and> progress r \<le> progress r' \<and>
                  (status r = ''Completed'' \<longrightarrow> status r' = ''Completed''))
     (lifetime ''T1'' example_env two_subscribers)"
    and len: "length (lifetime ''T1'' example_env two_subscribers) = 29"
    using stage_progress_status_monotone [of "''T1''" example_env two_subscribers]
    by simp_all
  from sorted_wrt_nth_less [OF this(1), of 25 28] len lifetime_example_25
  show ?thesis by simp
qed

text \<open>
  Claim C3. The runner is its processing part followed by a sleep of 300 seconds and
  the \<^verbatim>\<open>del\<close>. Once the processing part has run, and whatever other coroutines do
  while the runner is suspended in that sleep, a status query for the id returns the
  completed snapshot; once the runner has resumed and executed the \<^verbatim>\<open>del\<close>, and
  whatever other coroutines do afterwards, the query returns 404, as it does for any id
  the registry does not hold.
\<close>

theorem status_query_retention:
  "simulate_baggage_processing env = processing env @ [Sleep 300, Delete] \<and>
   (\<exists>w1. run tid env (processing env) w = (None, w1) \<and>
     (\<forall>w2. (other_step tid)\<^sup>*\<^sup>* w1 w2 \<longrightarrow>
        get_status tid w2 =
          Inr ((initial_status tid env)\<lparr>stage := 4, stage_name := ''Processing Complete'',
                 progress := 100, status := ''Completed'',
                 completion_time := Some (completion_iso env)\<rparr>) \<and>
        (\<exists>w3. run tid env [Sleep 300, Delete] w2 = (None, w3) \<and>
           (\<forall>w4. (other_step tid)\<^sup>*\<^sup>* w3 w4 \<longrightarrow> get_status tid w4 = Inl HTTP404)))) \<and>
   (task_statuses w tid = None \<longrightarrow> get_status tid w = Inl HTTP404)"
proof -
  obtain w1 where w1: "run tid env (processing env) w = (None, w1)"
    and r1: "task_statuses w1 = (task_statuses w)(tid \<mapsto>
          (initial_status tid env)\<lparr>stage := 4, stage_name := ''Processing Complete'',
            progress := 100, status := ''Completed'',
            completion_time := Some (completion_iso env)\<rparr>)"
    using run_processing by blast
  have "get_status tid w2 =
          Inr ((initial_status tid env)\<lparr>stage := 4, stage_name := ''Processing Complete'',
                 progress := 100, status := ''Completed'',
                 completion_time := Some (completion_iso env)\<rparr>) \<and>
        (\<exists>w3. run tid env [Sleep 300, Delete] w2 = (None, w3) \<and>
           (\<forall>w4. (other_step tid)\<^sup>*\<^sup>* w3 w4 \<longrightarrow> get_status tid w4 = Inl HTTP404))"
    if "(other_step tid)\<^sup>*\<^sup>* w1 w2" for w2
  proof -
    have r2: "task_statuses w2 tid = task_statuses w1 tid"
      using that by (rule other_steps_registry)
    obtain w3 where w3: "run tid env retention w2 = (None, w3)"
      and r3: "task_statuses w3 = (task_statuses w2)(tid := None)"
      using run_retention by blast
    have "get_status tid w4 = Inl HTTP404" if "(other_step tid)\<^sup>*\<^sup>* w3 w4" for w4
      using other_steps_registry [OF that] r3 by (simp add: get_status_def)
    with w3 r2 r1 show ?thesis
      by (simp add: get_status_def retention_def)
  qed
  with w1 show ?thesis
    by (auto simp add: simulate_baggage_processing_def retention_def get_status_def)
qed

theorem status_query_retention_witness:
  "get_status ''T1''
     (snd (connect 7 ''T1'' (snd (run ''T1'' example_env (processing example_env) empty_world))))
     = Inr ((initial_status ''T1'' example_env)\<lparr>stage := 4, stage_name := ''Processing Complete'',
                 progress := 100, status := ''Completed'',
                 completion_time := Some (completion_iso example_env)\<rparr>) \<and>
   get_status ''T1''
     (snd (run ''T1'' example_env [Sleep 300, Delete]
       (snd (connect 7 ''T1'' (snd (run ''T1'' example_env (processing example_env) empty_world))))))
     = Inl HTTP404"
proof -
  from status_query_retention [of example_env "''T1''" empty_world]
  obtain w1 where w1: "run ''T1'' example_env (processing example_env) empty_world = (None, w1)"
    and all: "\<And>w2. (other_step ''T1'')\<^sup>*\<^sup>* w1 w2 \<Longrightarrow>
        get_status ''T1'' w2 =
          Inr ((initial_status ''T1'' example_env)\<lparr>stage := 4, stage_name := ''Processing Complete'',
                 progress := 100, status := ''Completed'',
                 completion_time := Some (completion_iso example_env)\<rparr>) \<and>
        (\<exists>w3. run ''T1'' example_env [Sleep 300, Delete] w2 = (None, w3) \<and>
           (\<forall>w4. (other_step ''T1'')\<^sup>*\<^sup>* w3 w4 \<longrightarrow> get_status ''T1'' w4 = Inl HTTP404))"
    by blast
  have "(other_step ''T1'')\<^sup>*\<^sup>* w1 (snd (connect 7 ''T1'' w1))"
    by (rule r_into_rtranclp) (rule other_step.attach)
  from all [OF this] obtain w3
    where q: "get_status ''T1'' (snd (connect 7 ''T1'' w1)) =
          Inr ((initial_status ''T1'' example_env)\<lparr>stage := 4, stage_name := ''Processing Complete'',
                 progress := 100, status := ''Completed'',
                 completion_time := Some (completion_iso example_env)\<rparr>)"
      and w3: "run ''T1'' example_env [Sleep 300, Delete] (snd (connect 7 ''T1'' w1)) = (None, w3)"
      and gone: "\<forall>w4. (other_step ''T1'')\<^sup>*\<^sup>* w3 w4 \<longrightarrow> get_status ''T1'' w4 = Inl HTTP404"
    by blast
  from gone have "get_status ''T1'' w3 = Inl HTTP404"
    by blast
  with q show ?thesis
    unfolding w1 snd_conv w3 by (rule conjI)
qed

text \<open>
  Claim C4. The runner is the initial store and broadcast, the loop body for the
  stages 0, 1, 2 and 3, the completion block, the sleep and the \<^verbatim>\<open>del\<close>. On a
  registered record, the loop body for a stage \<open>k\<close> below 4 runs without raising and
  leaves the progress at \<open>k / 4 * 100\<close> (with the stage at \<open>k\<close>); the completion block
  runs without raising and leaves the stage at 4 and the progress at exactly 100.
\<close>

theorem progress_of_stage:
  "simulate_baggage_processing env =
     [Initialize, Broadcast] @ stage_body env 0 @ stage_body env 1 @ stage_body env 2
       @ stage_body env 3 @ completion env @ [Sleep 300, Delete] \<and>
   (\<forall>r. task_statuses w tid = Some r \<longrightarrow>
      (k < 4 \<longrightarrow>
         (\<exists>w'. run tid env (stage_body env k) w = (None, w') \<and>
            task_statuses w' tid =
              Some (r\<lparr>stage := k, stage_name := PROCESSING_STAGES ! k,
                      progress := (of_nat k / 4) * 100\<rparr>))) \<and>
      (\<exists>w' r'. run tid env (completion env) w = (None, w') \<and>
         task_statuses w' tid = Some r' \<and> stage r' = 4 \<and> progress r' = 100))"
proof -
  have "simulate_baggage_processing env =
     [Initialize, Broadcast] @ stage_body env 0 @ stage_body env 1 @ stage_body env 2
       @ stage_body env 3 @ completion env @ [Sleep 300, Delete]"
    by (simp add: simulate_baggage_processing_def processing_def retention_def upt_0_4)
  moreover have "\<exists>w'. run tid env (stage_body env k) w = (None, w') \<and>
            task_statuses w' tid =
              Some (r\<lparr>stage := k, stage_name := PROCESSING_STAGES ! k,
                      progress := (of_nat k / 4) * 100\<rparr>)"
    if "task_statuses w tid = Some r" for r
    using run_stage_body [OF that, of env k] by auto
  moreover have "\<exists>w' r'. run tid env (completion env) w = (None, w') \<and>
         task_statuses w' tid = Some r' \<and> stage r' = 4 \<and> progress r' = 100"
    if "task_statuses w tid = Some r" for r
    using run_completion [OF that, of env] by auto
  ultimately show ?thesis by blast
qed

theorem progress_of_stage_witness:
  "map_option progress (task_statuses (snd (run ''T1'' example_env (stage_body example_env 3)
       (snd (exec ''T1'' example_env Initialize empty_world)))) ''T1'') = Some 75 \<and>
   map_option progress (task_statuses (snd (run ''T1'' example_env (completion example_env)
       (snd (exec ''T1'' example_env Initialize empty_world)))) ''T1'') = Some 100"
proof -
  have "task_statuses (snd (exec ''T1'' example_env Initialize empty_world)) ''T1''
      = Some (initial_status ''T1'' example_env)"
    by simp
  with progress_of_stage [of example_env "snd (exec ''T1'' example_env Initialize empty_world)" "''T1''" 3]
  show ?thesis by auto
qed

section \<open>What the runner leaves alone\<close>

lemma lifetime_frame:
  "map (\<lambda>r. (task_id r, start_time r, estimated_completion r, baggage r)) (lifetime tid env w) =
     replicate 29 (tid, start_iso env, start_ts env + 120, rand_baggage env)"
  by (simp add: lifetime_def runner_defs List.map_filter_simps initial_status_def numeral_eq_Suc)

lemma assigns_frame:
  "\<forall>s\<in>set (simulate_baggage_processing env). \<forall>f. s = Assign f \<longrightarrow>
      (\<forall>r. task_id (f r) = task_id r \<and> start_time (f r) = start_time r \<and>
           estimated_completion (f r) = estimated_completion r \<and> baggage (f r) = baggage r)"
  by (simp add: runner_defs)

text \<open>
  Claim C10. Every item assignment of the runner (the stage advances and the
  completion) leaves the task id, the start time, the estimated completion and the
  baggage details of any record as they are; the assignments write the stage, the
  stage name, the progress, the status and the completion time only. Accordingly,
  over the whole life of a record these four fields keep the values of the initial
  dict.
\<close>

theorem runner_frame:
  "(\<forall>s\<in>set (simulate_baggage_processing env). \<forall>f. s = Assign f \<longrightarrow>
      (\<forall>r. task_id (f r) = task_id r \<and> start_time (f r) = start_time r \<and>
           estimated_completion (f r) = estimated_completion r \<and> baggage (f r) = baggage r)) \<and>
   (\<forall>r\<in>set (lifetime tid env w).
      task_id r = tid \<and> start_time r = start_iso env \<and>
      estimated_completion r = start_ts env + 120 \<and> baggage r = rand_baggage env) \<and>
   length (lifetime tid env w) = 29"
proof -
  have "(task_id r, start_time r, estimated_completion r, baggage r)
       = (tid, start_iso env, start_ts env + 120, rand_baggage env)"
    if "r \<in> set (lifetime tid env w)" for r
  proof -
    from that have "(task_id r, start_time r, estimated_completion r, baggage r)
      \<in> (\<lambda>r. (task_id r, start_time r, estimated_completion r, baggage r)) ` set (lifetime tid env w)"
      by (rule imageI)
    then have "(task_id r, start_time r, estimated_completion r, baggage r)
      \<in> set (map (\<lambda>r. (task_id r, start_time r, estimated_completion r, baggage r)) (lifetime tid env w))"
      by (simp only: set_map)
    then show ?thesis
      unfolding lifetime_frame by simp
  qed
  then show ?thesis
    using assigns_frame [of env] by (simp add: length_lifetime)
qed

theorem runner_frame_witness:
  "lifetime ''T1'' example_env two_subscribers ! 28 \<in> set (lifetime ''T1'' example_env two_subscribers) \<and>
   status (lifetime ''T1'' example_env two_subscribers ! 28) = ''Completed'' \<and>
   task_id (lifetime ''T1'' example_env two_subscribers ! 28) = ''T1'' \<and>
   baggage (lifetime ''T1'' example_env two_subscribers ! 28) = rand_baggage example_env"
proof -
  have len: "length (lifetime ''T1'' example_env two_subscribers) = 29"
    using runner_frame [of example_env "''T1''" two_subscribers] by simp
  then have mem: "lifetime ''T1'' example_env two_subscribers ! 28
      \<in> set (lifetime ''T1'' example_env two_subscribers)"
    by simp
  have "status (lifetime ''T1'' example_env two_subscribers ! 28)
      = map status (lifetime ''T1'' example_env two_subscribers) ! 28"
    using len by simp
  then have "status (lifetime ''T1'' example_env two_subscribers ! 28) = ''Completed''"
    by (simp add: lifetime_status nth_append)
  with mem runner_frame [of example_env "''T1''" two_subscribers]
  show ?thesis by blast
qed

section \<open>The broadcasts of one runner\<close>

lemma broadcast_stages:
  "map stage (broadcasts tid env (simulate_baggage_processing env) w) = [0, 0, 1, 2, 3, 4]"
  by (simp add: runner_defs initial_status_def)

text \<open>
  Claim C7, as amended. The messages a runner broadcasts carry the stage indices
  0, 0, 1, 2, 3, 4 in this order: the stage index never decreases, the initial
  broadcast (line 82) and the broadcast of the first loop iteration (line 100) both
  carry stage 0, and from the second broadcast on the stage index strictly increases.
\<close>

theorem broadcast_stages_nondecreasing:
  "map stage (broadcasts tid env (simulate_baggage_processing env) w) = [0, 0, 1, 2, 3, 4] \<and>
   sorted_wrt (\<le>) (map stage (broadcasts tid env (simulate_baggage_processing env) w)) \<and>
   sorted_wrt (<) (tl (map stage (broadcasts tid env (simulate_baggage_processing env) w)))"
  by (simp add: broadcast_stages)

theorem broadcast_stages_nondecreasing_witness:
  "map stage (broadcasts ''T1'' example_env (simulate_baggage_processing example_env) two_subscribers)
     = [0, 0, 1, 2, 3, 4]"
  using broadcast_stages_nondecreasing [of "''T1''" example_env two_subscribers] by blast

text \<open>
  Claim C7 as stated fails: the stage indices of the broadcasts are not strictly
  increasing, since the first two broadcasts both carry stage 0.
\<close>

theorem broadcasts_repeat_stage_0:
  "map stage (broadcasts ''T1'' example_env (simulate_baggage_processing example_env) empty_world)
     = [0, 0, 1, 2, 3, 4] \<and>
   \<not> sorted_wrt (<)
       (map stage (broadcasts ''T1'' example_env (simulate_baggage_processing example_env) empty_world))"
  by (simp add: broadcast_stages)

section \<open>Submission and the first status query\<close>





section \<open>Attaching a subscriber\<close>

lemma broken_broadcast [simp]: "broken (broadcast_to_task m tid w) = broken w"
  by (simp add: broadcast_to_task_def split: option.splits prod.splits)



lemma connect_result:
  "connect ws tid w =
     (if task_statuses w tid \<noteq> None \<and> ws \<in> broken w then Some SendError else None,
      w\<lparr>active_connections := (active_connections w)(tid \<mapsto>
           (case active_connections w tid of None \<Rightarrow> [] | Some cs \<Rightarrow> cs) @ [ws]),
        outbox := outbox w @
           (case task_statuses w tid of
              None \<Rightarrow> []
            | Some r \<Rightarrow> if ws \<in> broken w then [] else [(ws, r)])\<rparr>)"
  by (simp add: connect_def send_personal_message_def Let_def split: option.splits)



section \<open>Broadcast, detach and the lists of the hub\<close>

text \<open>When no connection of the list is broken, every one of them is sent the message
  and the list stays as it is.\<close>

lemma broadcast_iter_all_healthy:
  "set conns \<inter> bad = {} \<Longrightarrow>
   broadcast_iter bad i conns delivered = (conns, delivered @ drop i conns)"
proof (induction bad i conns delivered rule: broadcast_iter.induct)
  case (1 bad i conns delivered)
  show ?case
  proof (cases "i < length conns")
    case True
    with "1.prems" have ok: "conns ! i \<notin> bad"
      by (meson disjoint_iff nth_mem)
    from True have "drop i conns = conns ! i # drop (Suc i) conns"
      by (simp add: Cons_nth_drop_Suc)
    with "1.IH"(2) [OF True ok "1.prems"] True ok show ?thesis
      by (subst broadcast_iter.simps) simp
  next
    case False
    then show ?thesis
      by (subst broadcast_iter.simps) simp
  qed
qed

lemma broadcast_all_healthy:
  "active_connections w tid = Some conns \<Longrightarrow> set conns \<inter> broken w = {} \<Longrightarrow>
   broadcast_to_task m tid w = w\<lparr>outbox := outbox w @ map (\<lambda>c. (c, m)) conns\<rparr>"
  by (simp add: broadcast_to_task_def broadcast_iter_all_healthy map_upd_triv)

text \<open>Attach and detach keep empty lists out of the hub's map.\<close>

lemma connect_hub_inv: "hub_inv w \<Longrightarrow> hub_inv (snd (connect ws tid w))"
  by (auto simp add: connect_result hub_inv_def ran_def split: if_splits)

lemma disconnect_hub_inv: "hub_inv w \<Longrightarrow> hub_inv (snd (disconnect ws tid w))"
  by (auto simp add: disconnect_def hub_inv_def ran_def split: option.splits if_splits)

lemma disconnect_deletes_empty:
  "active_connections w tid = Some [ws] \<Longrightarrow>
   disconnect ws tid w = (None, w\<lparr>active_connections := (active_connections w)(tid := None)\<rparr>)"
  by (simp add: disconnect_def)

text \<open>Detach is silent for an id without entry, and raises for a connection that is
  not in the list of the id; the world is left as it is in both cases.\<close>

lemma disconnect_absent_id:
  "active_connections w tid = None \<Longrightarrow> disconnect ws tid w = (None, w)"
  by (simp add: disconnect_def)

lemma disconnect_absent_connection:
  "active_connections w tid = Some conns \<Longrightarrow> ws \<notin> set conns \<Longrightarrow>
   disconnect ws tid w = (Some ValueError, w)"
  by (simp add: disconnect_def)

text \<open>
  Claim C2 fails on the code. With the subscribers 1 and 2 attached to \<open>T1\<close>, in this
  order, and the connection of 1 broken, the \<^verbatim>\<open>except\<close> branch removes 1 from the
  list the loop is iterating over; the iterator's index is then past the end of the
  shortened list, the loop ends, and the healthy subscriber 2 is sent nothing while it
  stays attached.
\<close>

theorem broadcast_skips_after_failure:
  "active_connections two_subscribers ''T1'' = Some [1, 2] \<and>
   broken two_subscribers = {1} \<and>
   active_connections (broadcast_to_task m ''T1'' two_subscribers) ''T1'' = Some [2] \<and>
   outbox (broadcast_to_task m ''T1'' two_subscribers) = []"
  by (simp add: broadcast_to_task_def two_subscribers_def broadcast_iter.simps)

text \<open>
  Claim C5 fails on the code. Detaching subscriber 1 of \<open>T1\<close> a second time, while
  subscriber 2 keeps the list alive, raises \<^verbatim>\<open>ValueError\<close> from \<^verbatim>\<open>list.remove\<close>; so
  does detaching a subscriber that a broadcast has already removed after a failed
  send. The remaining subscribers are not touched.
\<close>

theorem disconnect_absent_raises:
  "disconnect 1 ''T1'' two_subscribers =
     (None, two_subscribers\<lparr>active_connections := [''T1'' \<mapsto> [2]]\<rparr>) \<and>
   disconnect 1 ''T1'' (snd (disconnect 1 ''T1'' two_subscribers)) =
     (Some ValueError, two_subscribers\<lparr>active_connections := [''T1'' \<mapsto> [2]]\<rparr>) \<and>
   fst (disconnect 1 ''T1'' (broadcast_to_task m ''T1'' two_subscribers)) = Some ValueError"
  by (simp add: disconnect_def broadcast_to_task_def two_subscribers_def broadcast_iter.simps)

text \<open>
  Claim C9 fails on the code. A broadcast to \<open>T1\<close> whose only subscriber has a broken
  connection removes that subscriber and leaves the id associated with the empty
  list: the invariant holds before the broadcast and not after it.
\<close>

theorem broadcast_leaves_empty_list:
  "hub_inv one_broken_subscriber \<and>
   active_connections (broadcast_to_task m ''T1'' one_broken_subscriber) ''T1'' = Some [] \<and>
   \<not> hub_inv (broadcast_to_task m ''T1'' one_broken_subscriber)"
  by (simp add: hub_inv_def broadcast_to_task_def one_broken_subscriber_def broadcast_iter.simps)

end
